theory Spec2Isabelle
  imports Complex_Main
begin

section \<open>Strings and JavaScript truthiness\<close>

text \<open>
  A JavaScript string is modelled as a \<^typ>\<open>string\<close> whose characters stand for the code
  units U+0000 .. U+00FF. An optional property (\<open>undefined\<close> or \<open>null\<close> when missing) is
  an \<^typ>\<open>'a option\<close>. The operator \<open>a || b\<close> on an optional string takes \<open>b\<close> when
  \<open>a\<close> is missing or the empty string, the two falsy cases.
\<close>

fun or_else :: "string option \<Rightarrow> string \<Rightarrow> string" where
  "or_else None d = d"
| "or_else (Some s) d = (if s = [] then d else s)"

text \<open>\<open>!!u\<close> on an optional string.\<close>

fun truthy :: "string option \<Rightarrow> bool" where
  "truthy None = False"
| "truthy (Some s) = (s \<noteq> [])"

text \<open>
  \<open>s.split(c)\<close> for a one-character separator: the pieces between the separators, so the
  empty string gives one empty piece and a trailing separator a trailing empty piece.
\<close>

fun split :: "char \<Rightarrow> string \<Rightarrow> string list" where
  "split c [] = [[]]"
| "split c (x # xs) =
     (if x = c then [] # split c xs
      else (case split c xs of
              [] \<Rightarrow> [[x]]
            | l # ls \<Rightarrow> (x # l) # ls))"

text \<open>\<open>xs[i]\<close>, which is \<open>undefined\<close> out of range.\<close>

definition index :: "'a list \<Rightarrow> nat \<Rightarrow> 'a option" where
  "index xs i = (if i < length xs then Some (xs ! i) else None)"

text \<open>
  \<open>s.trim()\<close>: the white space and line terminators of ECMAScript that lie in the modelled
  range are TAB, LF, VT, FF, CR, SP and NBSP.
\<close>

definition isWhiteSpace :: "char \<Rightarrow> bool" where
  "isWhiteSpace c \<longleftrightarrow>
     c \<in> set [CHR 0x09, CHR 0x0A, CHR 0x0B, CHR 0x0C, CHR 0x0D, CHR 0x20, CHR 0xA0]"

definition trim :: "string \<Rightarrow> string" where
  "trim s = rev (dropWhile isWhiteSpace (rev (dropWhile isWhiteSpace s)))"

text \<open>Decimal rendering of a number inside a template literal.\<close>

fun string_of_nat :: "nat \<Rightarrow> string" where
  "string_of_nat n =
     (if n < 10 then [''0123456789'' ! n]
      else string_of_nat (n div 10) @ [''0123456789'' ! (n mod 10)])"

declare string_of_nat.simps [simp del]

section \<open>types.ts and constants.ts\<close>

datatype TranslationSpeed = FAST | DEEP

datatype ImageSize = SIZE_1K | SIZE_2K | SIZE_4K

definition TRANSLATION_FAST :: string where
  "TRANSLATION_FAST = ''gemini-2.5-flash-lite-latest''"

definition TRANSLATION_DEEP :: string where
  "TRANSLATION_DEEP = ''gemini-3-pro-preview''"

definition ANALYSIS :: string where
  "ANALYSIS = ''gemini-3-pro-preview''"

definition IMAGE_GEN :: string where
  "IMAGE_GEN = ''gemini-3-pro-image-preview''"

definition TERM_SEARCH :: string where
  "TERM_SEARCH = ''gemini-2.5-flash''"

definition SYSTEM_TRANSLATOR :: string where
  "SYSTEM_TRANSLATOR =
     ''You are a world-class translator of philosophical literary texts, specifically focusing on English-Turkish translation. ''
     @ [CHR 0x0A] @
     ''Your goal is to preserve the profound meaning of the text and the precise meaning of philosophical terms. ''
     @ [CHR 0x0A] @
     ''If a term has multiple interpretations, choose the one fitting the context best or provide a brief translator's note.''
     @ [CHR 0x0A] @
     ''Ensure the tone is academic, literary, and respectful of the source material.''"

definition SYSTEM_ANALYSIS :: string where
  "SYSTEM_ANALYSIS =
     ''You are a philosophical analyst. ''
     @ [CHR 0x0A] @
     ''If the user provides an image WITH text, translate the text preserving philosophical meaning.''
     @ [CHR 0x0A] @
     ''If the user provides an image WITHOUT text (e.g., a drawing, photograph, symbol), your task is to ''
     @ [CHR 0x22] @ ''change all the words except for the important terms'' @ [CHR 0x22] @ ''. ''
     @ [CHR 0x0A] @
     ''Interpretation: This means you should generate a philosophical textual interpretation of the visual imagery. ''
     @ [CHR 0x0A] @
     ''Identify the key philosophical '' @ [CHR 0x22] @ ''terms'' @ [CHR 0x22] @ '' or ''
     @ [CHR 0x22] @ ''symbols'' @ [CHR 0x22] @ '' present (e.g., ''
     @ [CHR 0x22] @ ''Existentialism'' @ [CHR 0x22] @ '', ''
     @ [CHR 0x22] @ ''Void'' @ [CHR 0x22] @ '', ''
     @ [CHR 0x22] @ ''Sublime'' @ [CHR 0x22]
     @ '') and weave a new narrative or description around them, strictly maintaining the weight of these terms while creatively describing the visual context.''"

section \<open>The model API: requests, replies and errors\<close>

text \<open>
  A thrown value: an \<open>Error\<close> object, identified by its message as the panels do, or the
  error event with which a failed \<open>FileReader\<close> rejects.
\<close>

datatype js_error = Error string | ReadFailed

text \<open>\<open>e.message\<close>; the error event of a failed file read has none.\<close>

fun message :: "js_error \<Rightarrow> string option" where
  "message (Error m) = Some m"
| "message ReadFailed = None"

datatype req_part =
    ReqInlineData string "string option"
  | ReqText string

datatype contents = Parts "req_part list" | Prompt string

record thinking_config =
  thinkingBudget :: nat

datatype tool = GoogleSearch

record image_config =
  imageSize :: ImageSize
  aspectRatio :: string

text \<open>The \<open>config\<close> object; a property that the code does not set is \<open>None\<close>.\<close>

record gen_config =
  systemInstruction :: "string option"
  thinkingConfig :: "thinking_config option"
  tools :: "tool list option"
  imageConfig :: "image_config option"

definition no_config :: gen_config where
  "no_config = \<lparr>systemInstruction = None, thinkingConfig = None, tools = None, imageConfig = None\<rparr>"

record request =
  model :: string
  contents :: contents
  config :: gen_config

record blob =
  mimeType :: "string option"
  data :: "string option"

record resp_part =
  inlineData :: "blob option"

record content =
  parts :: "resp_part list option"

record web_source =
  uri :: "string option"

record grounding_chunk =
  web :: "web_source option"

record grounding_metadata =
  groundingChunks :: "grounding_chunk list option"

record candidate =
  content :: "content option"
  groundingMetadata :: "grounding_metadata option"

text \<open>The reply; \<open>text'\<close> is its \<open>text\<close> property.\<close>

record response =
  text' :: "string option"
  candidates :: "candidate list option"

text \<open>
  The environment of the service: the key in \<open>process.env\<close> and the hosted model, which
  answers a request with a reply or throws. A service function returns the requests it
  sent next to its result, so that "no network call" is a property of the value.
\<close>

record env =
  API_KEY :: "string option"
  generateContent :: "request \<Rightarrow> js_error + response"

type_synonym 'a outcome = "request list \<times> (js_error + 'a)"

definition getAiClient :: "env \<Rightarrow> js_error + (request \<Rightarrow> js_error + response)" where
  "getAiClient e =
     (if \<not> truthy (API_KEY e) then Inl (Error ''API Key missing'')
      else Inr (generateContent e))"

section \<open>services/gemini: translation\<close>

record service_attachment =
  att_mimeType :: string
  att_data :: string

record translation_result =
  translation :: string
  groundingUrls :: "string list"

definition translate_instruction :: string where
  "translate_instruction =
     ''Translate the following text from English to Turkish (or vice versa based on detection). Preserve philosophical nuance.''
     @ [CHR 0x0A, CHR 0x0A]"

definition translate_attached_instruction :: string where
  "translate_attached_instruction =
     ''Translate the attached document from English to Turkish (or vice versa based on detection). Preserve philosophical nuance.''
     @ [CHR 0x0A, CHR 0x0A] @ ''Context/Instructions from user: ''"

text \<open>Lines 23 to 57 of \<open>translateContent\<close>: model, configuration and payload.\<close>

definition translate_request :: "string \<Rightarrow> service_attachment option \<Rightarrow> TranslationSpeed \<Rightarrow> request" where
  "translate_request txt attachment speed =
     (let isDeep = (speed = DEEP);
          model = (if isDeep then TRANSLATION_DEEP else TRANSLATION_FAST);
          config = no_config\<lparr>systemInstruction := Some SYSTEM_TRANSLATOR\<rparr>;
          config = (if isDeep
                    then config\<lparr>thinkingConfig := Some \<lparr>thinkingBudget = 32768\<rparr>\<rparr>
                    else config);
          contents =
            (case attachment of
               Some a \<Rightarrow>
                 Parts [ReqInlineData (att_mimeType a) (Some (att_data a)),
                        ReqText (translate_attached_instruction @ txt)]
             | None \<Rightarrow> Parts [ReqText (translate_instruction @ txt)])
      in \<lparr>model = model, contents = contents, config = config\<rparr>)"

definition translateContent ::
  "env \<Rightarrow> string \<Rightarrow> service_attachment option \<Rightarrow> TranslationSpeed \<Rightarrow> translation_result outcome" where
  "translateContent e txt attachment speed =
     (case getAiClient e of
        Inl err \<Rightarrow> ([], Inl err)
      | Inr ai \<Rightarrow>
          (let req = translate_request txt attachment speed in
           case ai req of
             Inl err \<Rightarrow> ([req], Inl err)
           | Inr response \<Rightarrow>
               ([req], Inr \<lparr>translation = or_else (text' response) ''Translation failed.'',
                           groundingUrls = []\<rparr>)))"

definition translateText :: "env \<Rightarrow> string \<Rightarrow> TranslationSpeed \<Rightarrow> translation_result outcome" where
  "translateText e txt speed = translateContent e txt None speed"

section \<open>services/gemini: term definition\<close>

record term_result =
  definition' :: "string option"
  urls :: "string list"

definition define_request :: "string \<Rightarrow> request" where
  "define_request term =
     \<lparr>model = ''gemini-2.5-flash'',
      contents = Prompt (''Define the philosophical term '' @ [CHR 0x22] @ term @ [CHR 0x22]
                         @ '' in the context of literary theory.''),
      config = no_config\<lparr>tools := Some [GoogleSearch]\<rparr>\<rparr>"

text \<open>\<open>response.candidates?.[0]?.groundingMetadata?.groundingChunks || []\<close>\<close>

definition groundingChunks_of :: "response \<Rightarrow> grounding_chunk list" where
  "groundingChunks_of response =
     (case Option.bind (Option.bind (Option.bind (candidates response) (\<lambda>cs. index cs 0))
                                    groundingMetadata)
                       groundingChunks of
        Some chunks \<Rightarrow> chunks
      | None \<Rightarrow> [])"

text \<open>\<open>groundingChunks.map(c => c.web?.uri).filter(u => !!u)\<close>\<close>

definition extract_urls :: "grounding_chunk list \<Rightarrow> string list" where
  "extract_urls chunks = map the (filter truthy (map (\<lambda>c. Option.bind (web c) uri) chunks))"

text \<open>
  The client is made before the \<open>try\<close>, so a missing key is thrown to the caller; a failure
  of the call itself is caught and answered with the fallback definition.
\<close>

definition defineTerm :: "env \<Rightarrow> string \<Rightarrow> term_result outcome" where
  "defineTerm e term =
     (case getAiClient e of
        Inl err \<Rightarrow> ([], Inl err)
      | Inr ai \<Rightarrow>
          (let req = define_request term in
           case ai req of
             Inl err \<Rightarrow>
               ([req], Inr \<lparr>definition' = Some ''Could not fetch definition.'', urls = []\<rparr>)
           | Inr response \<Rightarrow>
               ([req], Inr \<lparr>definition' = text' response,
                           urls = extract_urls (groundingChunks_of response)\<rparr>)))"

section \<open>services/gemini: image analysis\<close>

text \<open>
  A browser \<open>File\<close>: its name and media type, and what reading it yields: the data URL
  of \<open>readAsDataURL\<close>, the bytes of \<open>arrayBuffer()\<close>, the text of \<open>text()\<close>; \<open>None\<close> is
  a read that fails.
\<close>

record js_file =
  name :: string
  type' :: string
  readAsDataURL :: "string option"
  arrayBuffer :: "string option"
  file_text :: "string option"

record analysis_result =
  analysis_text :: string

definition default_analysis_prompt :: string where
  "default_analysis_prompt =
     ''Analyze this image. If it contains text, translate it preserving philosophical meaning. If it is an image without text, interpret its philosophical symbolism.''"

definition analyze_request :: "js_file \<Rightarrow> string \<Rightarrow> string option \<Rightarrow> request" where
  "analyze_request f result prompt =
     (let base64 = index (split (CHR '','') result) 1;
          mimeType = type' f
      in \<lparr>model = ANALYSIS,
          contents = Parts [ReqInlineData mimeType base64,
                            ReqText (or_else prompt default_analysis_prompt)],
          config = no_config\<lparr>systemInstruction := Some SYSTEM_ANALYSIS\<rparr>\<rparr>)"

definition analyzeImage :: "env \<Rightarrow> js_file \<Rightarrow> string option \<Rightarrow> analysis_result outcome" where
  "analyzeImage e f prompt =
     (case getAiClient e of
        Inl err \<Rightarrow> ([], Inl err)
      | Inr ai \<Rightarrow>
          (case readAsDataURL f of
             None \<Rightarrow> ([], Inl ReadFailed)
           | Some result \<Rightarrow>
               (let req = analyze_request f result prompt in
                case ai req of
                  Inl err \<Rightarrow> ([req], Inl err)
                | Inr response \<Rightarrow>
                    ([req], Inr \<lparr>analysis_text = or_else (text' response) ''Analysis failed.''\<rparr>))))"

section \<open>services/gemini: image generation\<close>

definition image_request :: "string \<Rightarrow> ImageSize \<Rightarrow> request" where
  "image_request prompt sz =
     \<lparr>model = IMAGE_GEN,
      contents = Parts [ReqText prompt],
      config = no_config\<lparr>imageConfig := Some \<lparr>imageSize = sz, aspectRatio = ''1:1''\<rparr>\<rparr>\<rparr>"

text \<open>A missing value inside a template literal prints as \<open>undefined\<close>.\<close>

fun interpolate :: "string option \<Rightarrow> string" where
  "interpolate None = ''undefined''"
| "interpolate (Some s) = s"

definition data_url :: "blob \<Rightarrow> string" where
  "data_url b = ''data:'' @ or_else (mimeType b) ''image/png'' @ '';base64,'' @ interpolate (data b)"

text \<open>\<open>response.candidates?.[0]?.content?.parts || []\<close>\<close>

definition parts_of :: "response \<Rightarrow> resp_part list" where
  "parts_of response =
     (case Option.bind (Option.bind (Option.bind (candidates response) (\<lambda>cs. index cs 0))
                                    content)
                       parts of
        Some ps \<Rightarrow> ps
      | None \<Rightarrow> [])"

text \<open>The \<open>for\<close> loop over the parts, left at the first part with inline data.\<close>

fun extract_image :: "resp_part list \<Rightarrow> js_error + string" where
  "extract_image [] = Inl (Error ''No image generated.'')"
| "extract_image (part # rest) =
     (case inlineData part of
        Some b \<Rightarrow> Inr (data_url b)
      | None \<Rightarrow> extract_image rest)"

definition generatePhilosophicalImage :: "env \<Rightarrow> string \<Rightarrow> ImageSize \<Rightarrow> string outcome" where
  "generatePhilosophicalImage e prompt sz =
     (case getAiClient e of
        Inl err \<Rightarrow> ([], Inl err)
      | Inr ai \<Rightarrow>
          (let req = image_request prompt sz in
           case ai req of
             Inl err \<Rightarrow> ([req], Inl err)
           | Inr response \<Rightarrow> ([req], extract_image (parts_of response))))"

section \<open>The browser window\<close>

text \<open>
  The libraries the panels look up on \<open>window\<close>, each present or not: mammoth with its
  \<open>extractRawText\<close> (from the bytes of a document to its text, or a rejection), docx,
  saveAs, pdfMake, and the key selection of \<open>aistudio\<close>.
\<close>

record aistudio =
  hasSelectedApiKey :: bool
  hasSelectedApiKey_after_select :: bool

record window =
  mammoth :: "(string \<Rightarrow> string option) option"
  docx :: bool
  saveAs :: bool
  pdfMake :: bool
  aistudio :: "aistudio option"

definition ensureApiKeySelected :: "window \<Rightarrow> bool" where
  "ensureApiKeySelected win =
     (case aistudio win of
        Some studio \<Rightarrow>
          (if \<not> hasSelectedApiKey studio then hasSelectedApiKey_after_select studio else True)
      | None \<Rightarrow> True)"

section \<open>components/ImageGenerationPanel and ImageAnalysisPanel\<close>

record generation_panel =
  prompt :: string
  size' :: ImageSize
  gen_loading :: bool
  generatedImage :: "string option"
  error' :: "string option"

text \<open>\<open>s.includes(sub)\<close>\<close>

fun includes_str :: "string \<Rightarrow> string \<Rightarrow> bool" where
  "includes_str [] sub = (sub = [])"
| "includes_str (x # xs) sub = (take (length sub) (x # xs) = sub \<or> includes_str xs sub)"

definition handleGenerate :: "env \<Rightarrow> window \<Rightarrow> generation_panel \<Rightarrow> generation_panel \<times> request list" where
  "handleGenerate e win st =
     (if trim (prompt st) = [] then (st, [])
      else
        (let st1 = st\<lparr>gen_loading := True, error' := None, generatedImage := None\<rparr>;
             authorized = ensureApiKeySelected win
         in case generatePhilosophicalImage e (prompt st) (size' st) of
              (sent, Inr imageUrl) \<Rightarrow>
                (st1\<lparr>generatedImage := Some imageUrl, gen_loading := False\<rparr>, sent)
            | (sent, Inl err) \<Rightarrow>
                (st1\<lparr>error' :=
                        Some (if (case message err of
                                    Some m \<Rightarrow> includes_str m ''Requested entity was not found''
                                  | None \<Rightarrow> False)
                              then ''Authentication failed. Please try selecting the API key again.''
                              else ''Failed to generate image. Please try again.''),
                     gen_loading := False\<rparr>, sent)))"

record analysis_panel =
  selectedFile :: "js_file option"
  previewUrl :: "string option"
  analysis :: string
  an_loading :: bool

definition handleAnalyze :: "env \<Rightarrow> analysis_panel \<Rightarrow> analysis_panel \<times> request list" where
  "handleAnalyze e st =
     (case selectedFile st of
        None \<Rightarrow> (st, [])
      | Some f \<Rightarrow>
          (case analyzeImage e f None of
             (sent, Inr res) \<Rightarrow> (st\<lparr>analysis := analysis_text res, an_loading := False\<rparr>, sent)
           | (sent, Inl err) \<Rightarrow>
               (st\<lparr>analysis := ''Failed to analyze image. Please ensure it is a valid image file.'',
                   an_loading := False\<rparr>, sent)))"

section \<open>components/TranslationPanel\<close>

datatype source_format = TEXT | PDF | DOCX

text \<open>The attachment held by the panel: \<open>{data, mimeType, name}\<close>.\<close>

record attachment =
  file_data :: string
  file_mimeType :: string
  file_name :: string

record term_definition =
  td_text :: string
  td_urls :: "string list"

text \<open>The state hooks of the panel; \<open>output'\<close> is the hook \<open>output\<close>.\<close>

record translation_panel =
  input :: string
  output' :: string
  speed :: TranslationSpeed
  loading :: bool
  termQuery :: string
  termDefinition :: "term_definition option"
  definingTerm :: bool
  attachment :: "attachment option"
  sourceFormat :: source_format

definition initial_panel :: translation_panel where
  "initial_panel =
     \<lparr>input = [], output' = [], speed = DEEP, loading = False, termQuery = [],
      termDefinition = None, definingTerm = False, attachment = None, sourceFormat = TEXT\<rparr>"

definition handleTranslate :: "env \<Rightarrow> translation_panel \<Rightarrow> translation_panel \<times> request list" where
  "handleTranslate e st =
     (if trim (input st) = [] \<and> attachment st = None then (st, [])
      else
        (let st1 = st\<lparr>loading := True, output' := []\<rparr>;
             serviceAttachment =
               (case attachment st of
                  Some a \<Rightarrow>
                    Some \<lparr>att_mimeType = file_mimeType a,
                          att_data = or_else (index (split (CHR '','') (file_data a)) 1) (file_data a)\<rparr>
                | None \<Rightarrow> None)
         in case translateContent e (input st) serviceAttachment (speed st) of
              (sent, Inr res) \<Rightarrow> (st1\<lparr>output' := translation res, loading := False\<rparr>, sent)
            | (sent, Inl err) \<Rightarrow>
                (st1\<lparr>output' := ''An error occurred during translation. Please try again.'',
                     loading := False\<rparr>, sent)))"

definition handleDefineTerm :: "env \<Rightarrow> translation_panel \<Rightarrow> translation_panel \<times> request list" where
  "handleDefineTerm e st =
     (if trim (termQuery st) = [] then (st, [])
      else
        (case defineTerm e (termQuery st) of
           (sent, Inr res) \<Rightarrow>
             (st\<lparr>termDefinition :=
                    Some \<lparr>td_text = or_else (definition' res) ''No definition found.'',
                          td_urls = urls res\<rparr>,
                 definingTerm := False\<rparr>, sent)
         | (sent, Inl err) \<Rightarrow>
             (st\<lparr>termDefinition := Some \<lparr>td_text = ''Error fetching definition.'', td_urls = []\<rparr>,
                 definingTerm := False\<rparr>, sent)))"

text \<open>
  The source list of the sidebar: one link per element of \<open>urls.slice(0, 3)\<close>, its target
  the URL; nothing is listed while there is no definition.
\<close>

definition displayed_sources :: "translation_panel \<Rightarrow> string list" where
  "displayed_sources st =
     (case termDefinition st of
        None \<Rightarrow> []
      | Some td \<Rightarrow> take 3 (td_urls td))"

subsection \<open>File import\<close>

text \<open>
  A regular expression with the flag \<open>i\<close> and ASCII letters only compares letters without
  their case; \<open>$\<close> is the end of the name.
\<close>

definition toLowerAscii :: "char \<Rightarrow> char" where
  "toLowerAscii c =
     (case map_of (zip ''ABCDEFGHIJKLMNOPQRSTUVWXYZ'' ''abcdefghijklmnopqrstuvwxyz'') c of
        Some l \<Rightarrow> l
      | None \<Rightarrow> c)"

definition endsWith_i :: "string \<Rightarrow> string \<Rightarrow> bool" where
  "endsWith_i s suffix \<longleftrightarrow>
     length suffix \<le> length s \<and>
     map toLowerAscii (drop (length s - length suffix) s) = suffix"

definition startsWith :: "string \<Rightarrow> string \<Rightarrow> bool" where
  "startsWith s pre \<longleftrightarrow> take (length pre) s = pre"

text \<open>\<open>/\.docx$/i\<close> and \<open>/\.(txt|md|json)$/i\<close>\<close>

definition match_docx :: "string \<Rightarrow> bool" where
  "match_docx nm \<longleftrightarrow> endsWith_i nm ''.docx''"

definition match_txt_md_json :: "string \<Rightarrow> bool" where
  "match_txt_md_json nm \<longleftrightarrow>
     endsWith_i nm ''.txt'' \<or> endsWith_i nm ''.md'' \<or> endsWith_i nm ''.json''"

text \<open>
  \<open>handleFileSelect\<close> returns the new state and the notices it raised with \<open>alert\<close>. The
  read of a PDF or image that fails never calls \<open>onload\<close>; a rejected \<open>arrayBuffer()\<close> or
  \<open>extractRawText\<close> is caught and reported; a rejected \<open>text()\<close> leaves the handler.
\<close>

definition handleFileSelect ::
  "window \<Rightarrow> translation_panel \<Rightarrow> js_file option \<Rightarrow> translation_panel \<times> string list" where
  "handleFileSelect win st selected =
     (case selected of
        None \<Rightarrow> (st, [])
      | Some f \<Rightarrow>
          (let st1 = st\<lparr>sourceFormat :=
                          (if type' f = ''application/pdf'' then PDF
                           else if match_docx (name f) then DOCX
                           else TEXT)\<rparr>
           in if type' f = ''application/pdf'' \<or> startsWith (type' f) ''image/'' then
                (case readAsDataURL f of
                   Some res \<Rightarrow>
                     (st1\<lparr>attachment :=
                            Some \<lparr>file_data = res, file_mimeType = type' f, file_name = name f\<rparr>,
                          input := []\<rparr>, [])
                 | None \<Rightarrow> (st1, []))
              else if match_docx (name f) then
                (case arrayBuffer f of
                   None \<Rightarrow>
                     (st1, [''Failed to read DOCX file. Please ensure it is a valid Word document.''])
                 | Some buffer \<Rightarrow>
                     (case mammoth win of
                        Some extractRawText \<Rightarrow>
                          (case extractRawText buffer of
                             Some v \<Rightarrow>
                               (st1\<lparr>input := v, attachment := None, sourceFormat := DOCX\<rparr>, [])
                           | None \<Rightarrow>
                               (st1, [''Failed to read DOCX file. Please ensure it is a valid Word document.'']))
                      | None \<Rightarrow>
                          (st1, [''Document processor not ready. Please try again in a moment.''])))
              else if startsWith (type' f) ''text/'' \<or> match_txt_md_json (name f) then
                (case file_text f of
                   Some t \<Rightarrow> (st1\<lparr>input := t, attachment := None\<rparr>, [])
                 | None \<Rightarrow> (st1, []))
              else
                (st1, [''Unsupported file type. Please upload PDF, DOCX, Text, or Image files.''])))"

definition clearAttachment :: "translation_panel \<Rightarrow> translation_panel" where
  "clearAttachment st = st\<lparr>attachment := None, sourceFormat := TEXT\<rparr>"

subsection \<open>Export\<close>

record text_run =
  run_text :: string

record docx_paragraph =
  children :: "text_run list"
  spacing_after :: nat

record doc_section =
  section_children :: "docx_paragraph list"

record document =
  sections :: "doc_section list"

record content_block =
  block_text :: string
  style :: string

record style_def =
  fontSize :: nat
  bold :: "bool option"
  margin :: "nat list option"
  lineHeight :: "rat option"

record doc_definition =
  doc_content :: "content_block list"
  styles :: "(string \<times> style_def) list"

datatype blob_body = DocxBlob document | TextBlob string string

text \<open>
  What a download hands to the browser: a blob to \<open>saveAs\<close>, a definition to pdfMake, or
  a blob to a temporary link; each with the file name.
\<close>

datatype download =
    SaveAs blob_body string
  | PdfMakeDownload doc_definition string
  | AnchorDownload blob_body string

text \<open>\<open>handleDownload\<close>, with the value of \<open>Date.now()\<close>; \<open>None\<close> is the early return.\<close>

definition handleDownload :: "window \<Rightarrow> nat \<Rightarrow> translation_panel \<Rightarrow> download option" where
  "handleDownload win now st =
     (if output' st = [] then None
      else
        (let filename = ''translation-'' @ string_of_nat now
         in if sourceFormat st = DOCX \<and> docx win \<and> saveAs win then
              (let paragraphs =
                     map (\<lambda>line. \<lparr>children = [\<lparr>run_text = line\<rparr>], spacing_after = 200\<rparr>)
                         (split (CHR 0x0A) (output' st));
                   doc = \<lparr>sections = [\<lparr>section_children = paragraphs\<rparr>]\<rparr>
               in Some (SaveAs (DocxBlob doc) (filename @ ''.docx'')))
            else if sourceFormat st = PDF \<and> pdfMake win then
              (let docDefinition =
                     \<lparr>doc_content = [\<lparr>block_text = ''Translation'', style = ''header''\<rparr>,
                                     \<lparr>block_text = output' st, style = ''body''\<rparr>],
                      styles = [(''header'', \<lparr>fontSize = 18, bold = Some True,
                                              margin = Some [0, 0, 0, 10], lineHeight = None\<rparr>),
                                (''body'', \<lparr>fontSize = 12, bold = None,
                                            margin = None, lineHeight = Some (3 / 2)\<rparr>)]\<rparr>
               in Some (PdfMakeDownload docDefinition (filename @ ''.pdf'')))
            else
              (let blob = TextBlob (output' st) ''text/plain;charset=utf-8''
               in if saveAs win then Some (SaveAs blob (filename @ ''.txt''))
                  else Some (AnchorDownload blob (filename @ ''.txt'')))))"

subsection \<open>The panel as a transition system\<close>

text \<open>What the user can do on the translation panel, each with the handler it runs.\<close>

datatype event =
    SetInput string
  | SetSpeed TranslationSpeed
  | SetTermQuery string
  | Translate
  | DefineTerm
  | FileSelect "js_file option"
  | ClearAttachment
  | Download nat

fun step :: "env \<Rightarrow> window \<Rightarrow> translation_panel \<Rightarrow> event \<Rightarrow> translation_panel" where
  "step e win st (SetInput v) = st\<lparr>input := v\<rparr>"
| "step e win st (SetSpeed v) = st\<lparr>speed := v\<rparr>"
| "step e win st (SetTermQuery v) = st\<lparr>termQuery := v\<rparr>"
| "step e win st Translate = fst (handleTranslate e st)"
| "step e win st DefineTerm = fst (handleDefineTerm e st)"
| "step e win st (FileSelect selected) = fst (handleFileSelect win st selected)"
| "step e win st ClearAttachment = clearAttachment st"
| "step e win st (Download now) = st"

definition run :: "env \<Rightarrow> window \<Rightarrow> translation_panel \<Rightarrow> event list \<Rightarrow> translation_panel" where
  "run e win st evs = foldl (step e win) st evs"

fun offers_file :: "event \<Rightarrow> bool" where
  "offers_file (FileSelect (Some f)) = True"
| "offers_file ev = False"

section \<open>Sample inputs\<close>

text \<open>A model that answers every request with a reply carrying neither text nor candidates.\<close>

definition silent_env :: env where
  "silent_env =
     \<lparr>API_KEY = Some ''key'',
      generateContent = (\<lambda>req. Inr \<lparr>text' = None, candidates = None\<rparr>)\<rparr>"

text \<open>A model whose every call fails in the network.\<close>

definition failing_env :: env where
  "failing_env =
     \<lparr>API_KEY = Some ''key'', generateContent = (\<lambda>req. Inl (Error ''Failed to fetch''))\<rparr>"

definition image_reply :: response where
  "image_reply =
     \<lparr>text' = None,
      candidates = Some
        [\<lparr>content = Some \<lparr>parts = Some
            [\<lparr>inlineData = None\<rparr>,
             \<lparr>inlineData = Some \<lparr>mimeType = Some ''image/jpeg'', data = Some ''QUJD''\<rparr>\<rparr>,
             \<lparr>inlineData = Some \<lparr>mimeType = Some ''image/png'', data = Some ''REVG''\<rparr>\<rparr>]\<rparr>,
          groundingMetadata = None\<rparr>]\<rparr>"

definition image_env :: env where
  "image_env = \<lparr>API_KEY = Some ''key'', generateContent = (\<lambda>req. Inr image_reply)\<rparr>"

definition sample_image :: js_file where
  "sample_image =
     \<lparr>name = ''cave.png'', type' = ''image/png'',
      readAsDataURL = Some ''data:image/png;base64,AAAA'',
      arrayBuffer = Some ''raw'', file_text = Some ''raw''\<rparr>"

definition blank_analysis :: analysis_panel where
  "blank_analysis = \<lparr>selectedFile = None, previewUrl = None, analysis = [], an_loading = False\<rparr>"

definition blank_generation :: generation_panel where
  "blank_generation =
     \<lparr>prompt = [], size' = SIZE_1K, gen_loading = False, generatedImage = None, error' = None\<rparr>"

definition no_window :: window where
  "no_window = \<lparr>mammoth = None, docx = False, saveAs = False, pdfMake = False, aistudio = None\<rparr>"

definition blanks :: string where
  "blanks = [CHR 0x20, CHR 0x09, CHR 0x0A]"

text \<open>A reply to a term lookup with six grounding chunks, one of them without URI.\<close>

definition grounding_reply :: response where
  "grounding_reply =
     \<lparr>text' = Some ''A definition.'',
      candidates = Some [\<lparr>content = None,
        groundingMetadata = Some \<lparr>groundingChunks = Some
          [\<lparr>web = Some \<lparr>uri = Some ''https://a''\<rparr>\<rparr>,
           \<lparr>web = Some \<lparr>uri = None\<rparr>\<rparr>,
           \<lparr>web = Some \<lparr>uri = Some ''https://a''\<rparr>\<rparr>,
           \<lparr>web = Some \<lparr>uri = Some ''https://b''\<rparr>\<rparr>,
           \<lparr>web = Some \<lparr>uri = Some ''https://c''\<rparr>\<rparr>,
           \<lparr>web = Some \<lparr>uri = Some ''https://d''\<rparr>\<rparr>]\<rparr>\<rparr>]\<rparr>"

definition grounding_env :: env where
  "grounding_env = \<lparr>API_KEY = Some ''key'', generateContent = (\<lambda>req. Inr grounding_reply)\<rparr>"

definition lookup_panel :: translation_panel where
  "lookup_panel = initial_panel\<lparr>termQuery := ''Zeitgeist''\<rparr>"

definition all_libraries :: window where
  "all_libraries =
     \<lparr>mammoth = Some (\<lambda>buffer. Some buffer), docx = True, saveAs = True, pdfMake = True,
      aistudio = None\<rparr>"

definition two_lines :: string where
  "two_lines = ''Line1'' @ [CHR 0x0A] @ ''Line2''"

definition hello_world :: string where
  "hello_world = ''Hello'' @ [CHR 0x0A] @ ''World''"

text \<open>Files offered for import, and panels that hold an imported PDF.\<close>

definition pdf_panel :: translation_panel where
  "pdf_panel =
     initial_panel
       \<lparr>attachment := Some \<lparr>file_data = ''data:application/pdf;base64,JVBERg=='',
                             file_mimeType = ''application/pdf'', file_name = ''ethics.pdf''\<rparr>,
        sourceFormat := PDF\<rparr>"

definition ethics_pdf :: js_file where
  "ethics_pdf =
     \<lparr>name = ''ethics.pdf'', type' = ''application/pdf'',
      readAsDataURL = Some ''data:application/pdf;base64,JVBERg=='',
      arrayBuffer = Some ''%PDF'', file_text = Some ''%PDF''\<rparr>"

definition notes_xyz :: js_file where
  "notes_xyz =
     \<lparr>name = ''notes.xyz'', type' = [],
      readAsDataURL = Some ''data:application/octet-stream;base64,eHl6'',
      arrayBuffer = Some ''xyz'', file_text = Some ''xyz''\<rparr>"

definition renamed_pdf :: js_file where
  "renamed_pdf =
     \<lparr>name = ''thesis.DOCX'', type' = ''application/pdf'',
      readAsDataURL = Some ''data:application/pdf;base64,JVBERg=='',
      arrayBuffer = Some ''%PDF'', file_text = Some ''%PDF''\<rparr>"

definition thesis_docx :: js_file where
  "thesis_docx =
     \<lparr>name = ''Thesis.DocX'',
      type' = ''application/vnd.openxmlformats-officedocument.wordprocessingml.document'',
      readAsDataURL = Some ''data:;base64,UEs='',
      arrayBuffer = Some ''Being and Time'', file_text = Some ''PK''\<rparr>"

definition notes_md :: js_file where
  "notes_md =
     \<lparr>name = ''notes.MD'', type' = [],
      readAsDataURL = Some ''data:;base64,Tm90ZXM='',
      arrayBuffer = Some ''Notes'', file_text = Some ''Notes''\<rparr>"

definition typed_panel :: translation_panel where
  "typed_panel = pdf_panel\<lparr>input := ''typed before''\<rparr>"

section \<open>Request configuration of the two translation speeds\<close>

text \<open>
  Claim C6. For the same text and attachment, the request built for deep translation carries
  a thinking budget and the request built for fast translation carries none; both carry the
  translator system instruction and the same payload, and their model identifiers differ.
  The request is the only one \<open>translateContent\<close> sends, and it is sent when a key is set.
\<close>

theorem deep_translate_has_thinking_budget:
  "thinkingConfig (config (translate_request txt att DEEP)) = Some \<lparr>thinkingBudget = 32768\<rparr>
   \<and> thinkingConfig (config (translate_request txt att FAST)) = None
   \<and> systemInstruction (config (translate_request txt att DEEP)) = Some SYSTEM_TRANSLATOR
   \<and> systemInstruction (config (translate_request txt att FAST)) = Some SYSTEM_TRANSLATOR
   \<and> model (translate_request txt att DEEP) = ''gemini-3-pro-preview''
   \<and> model (translate_request txt att FAST) = ''gemini-2.5-flash-lite-latest''
   \<and> model (translate_request txt att DEEP) \<noteq> model (translate_request txt att FAST)
   \<and> contents (translate_request txt att DEEP) = contents (translate_request txt att FAST)
   \<and> fst (translateContent e txt att sp) =
         (if truthy (API_KEY e) then [translate_request txt att sp] else [])"
  by (simp add: translate_request_def no_config_def TRANSLATION_DEEP_def TRANSLATION_FAST_def
       translateContent_def getAiClient_def Let_def split: sum.splits)

section \<open>Replies to translation and analysis\<close>

text \<open>
  Claim C8. When the model answers, \<open>translateContent\<close> and \<open>analyzeImage\<close> return a
  result and never an error: the text of the reply, or the fallback string
  "Translation failed." or "Analysis failed." when the reply has no text or an empty one.
\<close>

theorem translate_analyze_text_or_fallback:
  assumes "truthy (API_KEY e)"
  shows "(generateContent e (translate_request txt att sp) = Inr r \<longrightarrow>
            snd (translateContent e txt att sp) =
              Inr \<lparr>translation = (case text' r of
                                     None \<Rightarrow> ''Translation failed.''
                                   | Some t \<Rightarrow> if t = [] then ''Translation failed.'' else t),
                   groundingUrls = []\<rparr>)
       \<and> (readAsDataURL f = Some d \<and> generateContent e (analyze_request f d p) = Inr r \<longrightarrow>
            snd (analyzeImage e f p) =
              Inr \<lparr>analysis_text = (case text' r of
                                       None \<Rightarrow> ''Analysis failed.''
                                     | Some t \<Rightarrow> if t = [] then ''Analysis failed.'' else t)\<rparr>)"
  using assms
  by (auto simp: translateContent_def analyzeImage_def getAiClient_def Let_def split: option.splits)

theorem translate_analyze_text_or_fallback_witness:
  "truthy (API_KEY silent_env)
   \<and> generateContent silent_env (translate_request ''Dasein'' None FAST) =
        Inr \<lparr>text' = None, candidates = None\<rparr>
   \<and> snd (translateContent silent_env ''Dasein'' None FAST) =
        Inr \<lparr>translation = ''Translation failed.'', groundingUrls = []\<rparr>
   \<and> readAsDataURL sample_image = Some ''data:image/png;base64,AAAA''
   \<and> generateContent silent_env
        (analyze_request sample_image ''data:image/png;base64,AAAA'' None) =
        Inr \<lparr>text' = None, candidates = None\<rparr>
   \<and> snd (analyzeImage silent_env sample_image None) = Inr \<lparr>analysis_text = ''Analysis failed.''\<rparr>"
proof -
  have key: "truthy (API_KEY silent_env)"
    by (simp add: silent_env_def)
  show ?thesis
    using key translate_analyze_text_or_fallback
                [OF key, of "''Dasein''" None FAST "\<lparr>text' = None, candidates = None\<rparr>"
                    sample_image "''data:image/png;base64,AAAA''" None]
    by (simp add: silent_env_def sample_image_def)
qed

section \<open>Replies to image generation\<close>

lemma extract_image_find:
  "extract_image ps =
     (case find (\<lambda>part. inlineData part \<noteq> None) ps of
        Some part \<Rightarrow> Inr (data_url (the (inlineData part)))
      | None \<Rightarrow> Inl (Error ''No image generated.''))"
  by (induction ps) (auto split: option.splits)

text \<open>
  Claim C7. When the model answers, \<open>generatePhilosophicalImage\<close> returns the data URL made
  of the media type (\<open>image/png\<close> when the part names none) and the data of the first part
  that has inline data, and fails with the error "No image generated." when no part has
  any. A failure of the call is passed on unchanged, so it differs from that error unless it
  carries the very same message.
\<close>

theorem generate_image_first_inline_or_error:
  assumes "truthy (API_KEY e)"
  shows "(generateContent e (image_request p sz) = Inr r \<longrightarrow>
            snd (generatePhilosophicalImage e p sz) =
              (case find (\<lambda>part. inlineData part \<noteq> None) (parts_of r) of
                 Some part \<Rightarrow>
                   Inr (''data:'' @ or_else (mimeType (the (inlineData part))) ''image/png''
                        @ '';base64,'' @ interpolate (data (the (inlineData part))))
               | None \<Rightarrow> Inl (Error ''No image generated.'')))
       \<and> (generateContent e (image_request p sz) = Inl err \<longrightarrow>
            snd (generatePhilosophicalImage e p sz) = Inl err
            \<and> (err \<noteq> Error ''No image generated.'' \<longrightarrow>
                 snd (generatePhilosophicalImage e p sz) \<noteq> Inl (Error ''No image generated.'')))"
  using assms
  by (auto simp: generatePhilosophicalImage_def getAiClient_def Let_def extract_image_find
                 data_url_def
           split: option.splits)

theorem generate_image_first_inline_or_error_witness:
  "truthy (API_KEY image_env)
   \<and> generateContent image_env (image_request ''the cave'' SIZE_1K) = Inr image_reply
   \<and> snd (generatePhilosophicalImage image_env ''the cave'' SIZE_1K) =
        Inr ''data:image/jpeg;base64,QUJD''
   \<and> truthy (API_KEY silent_env)
   \<and> generateContent silent_env (image_request ''the cave'' SIZE_1K) =
        Inr \<lparr>text' = None, candidates = None\<rparr>
   \<and> snd (generatePhilosophicalImage silent_env ''the cave'' SIZE_1K) =
        Inl (Error ''No image generated.'')
   \<and> truthy (API_KEY failing_env)
   \<and> generateContent failing_env (image_request ''the cave'' SIZE_1K) =
        Inl (Error ''Failed to fetch'')
   \<and> Error ''Failed to fetch'' \<noteq> Error ''No image generated.''
   \<and> snd (generatePhilosophicalImage failing_env ''the cave'' SIZE_1K) =
        Inl (Error ''Failed to fetch'')"
proof -
  have k1: "truthy (API_KEY image_env)"
    by (simp add: image_env_def)
  have k2: "truthy (API_KEY silent_env)"
    by (simp add: silent_env_def)
  have k3: "truthy (API_KEY failing_env)"
    by (simp add: failing_env_def)
  have found: "snd (generatePhilosophicalImage image_env ''the cave'' SIZE_1K) =
        Inr ''data:image/jpeg;base64,QUJD''"
    using generate_image_first_inline_or_error
            [OF k1, of "''the cave''" SIZE_1K image_reply "Error ''none''"]
    by (simp add: image_env_def image_reply_def parts_of_def index_def)
  have absent: "snd (generatePhilosophicalImage silent_env ''the cave'' SIZE_1K) =
        Inl (Error ''No image generated.'')"
    using generate_image_first_inline_or_error
            [OF k2, of "''the cave''" SIZE_1K "\<lparr>text' = None, candidates = None\<rparr>" "Error ''none''"]
    by (simp add: silent_env_def parts_of_def)
  have failed: "snd (generatePhilosophicalImage failing_env ''the cave'' SIZE_1K) =
        Inl (Error ''Failed to fetch'')"
    using generate_image_first_inline_or_error
            [OF k3, of "''the cave''" SIZE_1K image_reply "Error ''Failed to fetch''"]
    by (simp add: failing_env_def)
  show ?thesis
    using k1 k2 k3 found absent failed
    by (simp add: image_env_def silent_env_def failing_env_def)
qed

section \<open>Blank submissions\<close>

lemma all_dropWhile: "(\<forall>x\<in>set (dropWhile P s). P x) \<longleftrightarrow> (\<forall>x\<in>set s. P x)"
  by (induction s) auto

lemma trim_empty_iff: "trim s = [] \<longleftrightarrow> (\<forall>c\<in>set s. isWhiteSpace c)"
  by (simp add: trim_def dropWhile_eq_Nil_conv all_dropWhile)

text \<open>
  Claim C2. When the text is empty or consists of white space only, no handler sends a
  request and the panel stays as it is: the translation handler at either speed when there
  is no attachment either, the term lookup, the image generation, and the analysis when no
  file is selected.
\<close>

theorem blank_input_sends_no_request:
  assumes "\<forall>c\<in>set txt. isWhiteSpace c"
  shows "(input st = txt \<and> attachment st = None \<longrightarrow> handleTranslate e st = (st, []))
       \<and> (termQuery st = txt \<longrightarrow> handleDefineTerm e st = (st, []))
       \<and> (prompt g = txt \<longrightarrow> handleGenerate e win g = (g, []))
       \<and> (selectedFile a = None \<longrightarrow> handleAnalyze e a = (a, []))"
  using assms
  by (simp add: handleTranslate_def handleDefineTerm_def handleGenerate_def handleAnalyze_def
                trim_empty_iff)

theorem blank_input_sends_no_request_witness:
  "trim blanks = []
   \<and> input (initial_panel\<lparr>input := blanks, termQuery := blanks, speed := FAST\<rparr>) = blanks
   \<and> termQuery (initial_panel\<lparr>input := blanks, termQuery := blanks, speed := FAST\<rparr>) = blanks
   \<and> attachment (initial_panel\<lparr>input := blanks, termQuery := blanks, speed := FAST\<rparr>) = None
   \<and> prompt (blank_generation\<lparr>prompt := blanks\<rparr>) = blanks
   \<and> selectedFile blank_analysis = None
   \<and> handleTranslate silent_env (initial_panel\<lparr>input := blanks, termQuery := blanks, speed := FAST\<rparr>)
        = (initial_panel\<lparr>input := blanks, termQuery := blanks, speed := FAST\<rparr>, [])
   \<and> handleDefineTerm silent_env (initial_panel\<lparr>input := blanks, termQuery := blanks, speed := FAST\<rparr>)
        = (initial_panel\<lparr>input := blanks, termQuery := blanks, speed := FAST\<rparr>, [])
   \<and> handleGenerate silent_env no_window (blank_generation\<lparr>prompt := blanks\<rparr>)
        = (blank_generation\<lparr>prompt := blanks\<rparr>, [])
   \<and> handleAnalyze silent_env blank_analysis = (blank_analysis, [])"
proof -
  have ws: "\<forall>c\<in>set blanks. isWhiteSpace c"
    by (simp add: blanks_def isWhiteSpace_def)
  show ?thesis
    using ws blank_input_sends_no_request
               [OF ws, of "initial_panel\<lparr>input := blanks, termQuery := blanks, speed := FAST\<rparr>"
                   silent_env "blank_generation\<lparr>prompt := blanks\<rparr>" no_window blank_analysis]
    by (simp add: initial_panel_def blank_analysis_def trim_empty_iff)
qed

section \<open>Sources of a term lookup\<close>

lemma extract_urls_map_filter:
  "extract_urls chunks =
      List.map_filter
        (\<lambda>c. case web c of
                None \<Rightarrow> None
              | Some w \<Rightarrow> (case uri w of
                             None \<Rightarrow> None
                           | Some u \<Rightarrow> if u = [] then None else Some u)) chunks"
  by (induction chunks) (auto simp: extract_urls_def List.map_filter_simps split: option.splits)

lemma displayed_after_lookup:
  assumes "truthy (API_KEY e)" and "trim (termQuery st) \<noteq> []"
    and "generateContent e (define_request (termQuery st)) = Inr r"
  shows "displayed_sources (fst (handleDefineTerm e st)) = take 3 (extract_urls (groundingChunks_of r))"
  using assms
  by (simp add: displayed_sources_def handleDefineTerm_def defineTerm_def getAiClient_def Let_def)

text \<open>
  Claim C1, as the code has it. After a term lookup that the model answers, the sidebar
  lists the first three of the URIs of the grounding chunks, taken in the order of the
  reply, without the chunks that have no URI or an empty one, and with repeated URIs
  kept. For the chunks a, none, a, b, c, d the list is a, a, b.
\<close>

theorem term_lookup_first_three_sources:
  "(truthy (API_KEY e) \<and> trim (termQuery st) \<noteq> []
      \<and> generateContent e (define_request (termQuery st)) = Inr r \<longrightarrow>
      displayed_sources (fst (handleDefineTerm e st)) =
        take 3 (List.map_filter
                  (\<lambda>c. case web c of
                          None \<Rightarrow> None
                        | Some w \<Rightarrow> (case uri w of
                                       None \<Rightarrow> None
                                     | Some u \<Rightarrow> if u = [] then None else Some u))
                  (groundingChunks_of r)))
   \<and> (truthy (API_KEY e) \<and> trim (termQuery st) \<noteq> []
      \<and> generateContent e (define_request (termQuery st)) = Inr r
      \<and> map (\<lambda>c. Option.bind (web c) uri) (groundingChunks_of r) =
            [Some ''https://a'', None, Some ''https://a'', Some ''https://b'',
             Some ''https://c'', Some ''https://d''] \<longrightarrow>
      displayed_sources (fst (handleDefineTerm e st)) =
        [''https://a'', ''https://a'', ''https://b''])"
proof (intro conjI impI)
  assume "truthy (API_KEY e) \<and> trim (termQuery st) \<noteq> []
      \<and> generateContent e (define_request (termQuery st)) = Inr r"
  then have "displayed_sources (fst (handleDefineTerm e st)) = take 3 (extract_urls (groundingChunks_of r))"
    by (simp add: displayed_after_lookup)
  then show "displayed_sources (fst (handleDefineTerm e st)) =
        take 3 (List.map_filter
                  (\<lambda>c. case web c of
                          None \<Rightarrow> None
                        | Some w \<Rightarrow> (case uri w of
                                       None \<Rightarrow> None
                                     | Some u \<Rightarrow> if u = [] then None else Some u))
                  (groundingChunks_of r))"
    by (simp only: extract_urls_map_filter)
next
  assume a: "truthy (API_KEY e) \<and> trim (termQuery st) \<noteq> []
      \<and> generateContent e (define_request (termQuery st)) = Inr r
      \<and> map (\<lambda>c. Option.bind (web c) uri) (groundingChunks_of r) =
            [Some ''https://a'', None, Some ''https://a'', Some ''https://b'',
             Some ''https://c'', Some ''https://d'']"
  then have "displayed_sources (fst (handleDefineTerm e st)) = take 3 (extract_urls (groundingChunks_of r))"
    by (simp add: displayed_after_lookup)
  moreover from a have "extract_urls (groundingChunks_of r) =
      [''https://a'', ''https://a'', ''https://b'', ''https://c'', ''https://d'']"
    by (simp add: extract_urls_def)
  ultimately show "displayed_sources (fst (handleDefineTerm e st)) =
        [''https://a'', ''https://a'', ''https://b'']"
    by simp
qed

theorem term_lookup_first_three_sources_witness:
  "truthy (API_KEY grounding_env)
   \<and> trim (termQuery lookup_panel) \<noteq> []
   \<and> generateContent grounding_env (define_request (termQuery lookup_panel)) = Inr grounding_reply
   \<and> map (\<lambda>c. Option.bind (web c) uri) (groundingChunks_of grounding_reply) =
        [Some ''https://a'', None, Some ''https://a'', Some ''https://b'',
         Some ''https://c'', Some ''https://d'']
   \<and> displayed_sources (fst (handleDefineTerm grounding_env lookup_panel))
        = [''https://a'', ''https://a'', ''https://b'']"
proof -
  have a: "truthy (API_KEY grounding_env)"
    by (simp add: grounding_env_def)
  have b: "trim (termQuery lookup_panel) \<noteq> []"
    by (simp add: lookup_panel_def trim_def isWhiteSpace_def)
  have c: "generateContent grounding_env (define_request (termQuery lookup_panel)) = Inr grounding_reply"
    by (simp add: grounding_env_def)
  have d: "map (\<lambda>c. Option.bind (web c) uri) (groundingChunks_of grounding_reply) =
        [Some ''https://a'', None, Some ''https://a'', Some ''https://b'',
         Some ''https://c'', Some ''https://d'']"
    by (simp add: groundingChunks_of_def grounding_reply_def index_def)
  have e: "displayed_sources (fst (handleDefineTerm grounding_env lookup_panel))
        = [''https://a'', ''https://a'', ''https://b'']"
    by (rule term_lookup_first_three_sources [of grounding_env lookup_panel grounding_reply, THEN conjunct2, THEN mp])
       (intro conjI a b c d)
  show ?thesis
    by (intro conjI a b c d e)
qed

text \<open>
  On that reply the list of the first three distinct URIs, a, b, c, is not what is shown.
\<close>

theorem term_lookup_sources_not_deduplicated:
  "displayed_sources (fst (handleDefineTerm grounding_env lookup_panel))
     \<noteq> [''https://a'', ''https://b'', ''https://c'']"
  by (simp add: displayed_sources_def handleDefineTerm_def defineTerm_def getAiClient_def grounding_env_def
      grounding_reply_def lookup_panel_def initial_panel_def trim_def isWhiteSpace_def extract_urls_def groundingChunks_of_def index_def)

section \<open>Export of a translation\<close>

lemma split_not_Nil: "split c s \<noteq> []"
  by (induction s) (auto split: list.splits)

lemma length_split: "length (split c s) = Suc (count_list s c)"
  by (induction s) (auto split: list.splits simp: split_not_Nil)

lemma split_pieces: "l \<in> set (split c s) \<Longrightarrow> c \<notin> set l"
  by (induction s arbitrary: l) (auto split: list.splits if_splits)

lemma split_join: "concat (map (\<lambda>l. l @ [c]) (split c s)) = s @ [c]"
  by (induction s) (auto split: list.splits simp: split_not_Nil)

lemma split_two_lines: "split (CHR 0x0A) two_lines = [''Line1'', ''Line2'']"
  by (simp add: two_lines_def)

text \<open>
  Claim C3, as the code has it. With the source format docx, a translation that is not
  empty and the docx and saveAs libraries loaded, the download is one document of one
  section whose paragraphs are the pieces of the translation between its line feeds, in
  order, each a paragraph of one text run with the spacing 200 after it: one paragraph
  more than there are line feeds, no paragraph containing a line feed, and the pieces
  joined by line feeds give the translation back. For "Line1", line feed, "Line2" these
  are the two paragraphs "Line1" and "Line2".
\<close>

theorem docx_download_one_paragraph_per_line:
  assumes "sourceFormat st = DOCX" and "output' st \<noteq> []" and "docx win" and "saveAs win"
  shows "handleDownload win now st =
           Some (SaveAs
                  (DocxBlob \<lparr>sections =
                     [\<lparr>section_children =
                         map (\<lambda>line. \<lparr>children = [\<lparr>run_text = line\<rparr>], spacing_after = 200\<rparr>)
                             (split (CHR 0x0A) (output' st))\<rparr>]\<rparr>)
                  (''translation-'' @ string_of_nat now @ ''.docx''))
       \<and> length (split (CHR 0x0A) (output' st)) = Suc (count_list (output' st) (CHR 0x0A))
       \<and> concat (map (\<lambda>line. line @ [CHR 0x0A]) (split (CHR 0x0A) (output' st))) = output' st @ [CHR 0x0A]
       \<and> (\<forall>line\<in>set (split (CHR 0x0A) (output' st)). CHR 0x0A \<notin> set line)
       \<and> (output' st = two_lines \<longrightarrow>
            handleDownload win now st =
              Some (SaveAs
                     (DocxBlob \<lparr>sections =
                        [\<lparr>section_children =
                            [\<lparr>children = [\<lparr>run_text = ''Line1''\<rparr>], spacing_after = 200\<rparr>,
                             \<lparr>children = [\<lparr>run_text = ''Line2''\<rparr>], spacing_after = 200\<rparr>]\<rparr>]\<rparr>)
                     (''translation-'' @ string_of_nat now @ ''.docx'')))"
proof -
  have dl: "handleDownload win now st =
           Some (SaveAs
                  (DocxBlob \<lparr>sections =
                     [\<lparr>section_children =
                         map (\<lambda>line. \<lparr>children = [\<lparr>run_text = line\<rparr>], spacing_after = 200\<rparr>)
                             (split (CHR 0x0A) (output' st))\<rparr>]\<rparr>)
                  (''translation-'' @ string_of_nat now @ ''.docx''))"
    using assms by (simp add: handleDownload_def Let_def)
  have pieces: "\<forall>line\<in>set (split (CHR 0x0A) (output' st)). CHR 0x0A \<notin> set line"
    using split_pieces by blast
  have two: "handleDownload win now st =
              Some (SaveAs
                     (DocxBlob \<lparr>sections =
                        [\<lparr>section_children =
                            [\<lparr>children = [\<lparr>run_text = ''Line1''\<rparr>], spacing_after = 200\<rparr>,
                             \<lparr>children = [\<lparr>run_text = ''Line2''\<rparr>], spacing_after = 200\<rparr>]\<rparr>]\<rparr>)
                     (''translation-'' @ string_of_nat now @ ''.docx''))"
    if "output' st = two_lines"
    unfolding dl that split_two_lines by simp
  show ?thesis
    by (intro conjI impI dl length_split split_join pieces two)
qed

theorem docx_download_one_paragraph_per_line_witness:
  "sourceFormat (initial_panel\<lparr>output' := two_lines, sourceFormat := DOCX\<rparr>) = DOCX
   \<and> output' (initial_panel\<lparr>output' := two_lines, sourceFormat := DOCX\<rparr>) \<noteq> []
   \<and> docx all_libraries \<and> saveAs all_libraries
   \<and> handleDownload all_libraries 1730000000000
        (initial_panel\<lparr>output' := two_lines, sourceFormat := DOCX\<rparr>) =
        Some (SaveAs
               (DocxBlob \<lparr>sections =
                  [\<lparr>section_children =
                      [\<lparr>children = [\<lparr>run_text = ''Line1''\<rparr>], spacing_after = 200\<rparr>,
                       \<lparr>children = [\<lparr>run_text = ''Line2''\<rparr>], spacing_after = 200\<rparr>]\<rparr>]\<rparr>)
               (''translation-'' @ string_of_nat 1730000000000 @ ''.docx''))"
proof -
  have a: "sourceFormat (initial_panel\<lparr>output' := two_lines, sourceFormat := DOCX\<rparr>) = DOCX"
    by simp
  have b: "output' (initial_panel\<lparr>output' := two_lines, sourceFormat := DOCX\<rparr>) \<noteq> []"
    by (simp add: two_lines_def)
  have c: "docx all_libraries" and d: "saveAs all_libraries"
    by (simp_all add: all_libraries_def)
  have o: "output' (initial_panel\<lparr>output' := two_lines, sourceFormat := DOCX\<rparr>) = two_lines"
    by simp
  note th = docx_download_one_paragraph_per_line [OF a b c d, of 1730000000000]
  have e: "handleDownload all_libraries 1730000000000
        (initial_panel\<lparr>output' := two_lines, sourceFormat := DOCX\<rparr>) =
        Some (SaveAs
               (DocxBlob \<lparr>sections =
                  [\<lparr>section_children =
                      [\<lparr>children = [\<lparr>run_text = ''Line1''\<rparr>], spacing_after = 200\<rparr>,
                       \<lparr>children = [\<lparr>run_text = ''Line2''\<rparr>], spacing_after = 200\<rparr>]\<rparr>]\<rparr>)
               (''translation-'' @ string_of_nat 1730000000000 @ ''.docx''))"
    by (rule th [THEN conjunct2, THEN conjunct2, THEN conjunct2, THEN conjunct2, THEN mp]) (rule o)
  show ?thesis
    by (intro conjI a b c d e)
qed

text \<open>
  With an empty translation the handler returns without a download, and without the
  libraries the docx format falls back to a plain text file.
\<close>

theorem docx_download_guards:
  "handleDownload all_libraries 1730000000000 (initial_panel\<lparr>output' := [], sourceFormat := DOCX\<rparr>) = None
   \<and> handleDownload no_window 1730000000000 (initial_panel\<lparr>output' := two_lines, sourceFormat := DOCX\<rparr>) =
        Some (AnchorDownload (TextBlob two_lines ''text/plain;charset=utf-8'')
               (''translation-'' @ string_of_nat 1730000000000 @ ''.txt''))"
  by (simp add: handleDownload_def all_libraries_def no_window_def two_lines_def)

text \<open>
  Claim C4, as the code has it. With the source format pdf, a translation that is not empty
  and pdfMake loaded, the download is a document definition of two blocks: the header
  "Translation" in the style of size 18, bold, and one body block holding the whole
  translation in the style of size 12 and line height 1.5. For "Hello", line feed, "World"
  the body is that one block.
\<close>

theorem pdf_download_header_and_one_body:
  assumes "sourceFormat st = PDF" and "output' st \<noteq> []" and "pdfMake win"
  shows "handleDownload win now st =
           Some (PdfMakeDownload
                  \<lparr>doc_content = [\<lparr>block_text = ''Translation'', style = ''header''\<rparr>,
                                  \<lparr>block_text = output' st, style = ''body''\<rparr>],
                   styles = [(''header'', \<lparr>fontSize = 18, bold = Some True,
                                           margin = Some [0, 0, 0, 10], lineHeight = None\<rparr>),
                             (''body'', \<lparr>fontSize = 12, bold = None,
                                         margin = None, lineHeight = Some (3 / 2)\<rparr>)]\<rparr>
                  (''translation-'' @ string_of_nat now @ ''.pdf''))
       \<and> (output' st = hello_world \<longrightarrow>
            handleDownload win now st =
              Some (PdfMakeDownload
                     \<lparr>doc_content = [\<lparr>block_text = ''Translation'', style = ''header''\<rparr>,
                                     \<lparr>block_text = ''Hello'' @ [CHR 0x0A] @ ''World'', style = ''body''\<rparr>],
                      styles = [(''header'', \<lparr>fontSize = 18, bold = Some True,
                                              margin = Some [0, 0, 0, 10], lineHeight = None\<rparr>),
                                (''body'', \<lparr>fontSize = 12, bold = None,
                                            margin = None, lineHeight = Some (3 / 2)\<rparr>)]\<rparr>
                     (''translation-'' @ string_of_nat now @ ''.pdf'')))"
  using assms by (simp add: handleDownload_def Let_def hello_world_def)

theorem pdf_download_header_and_one_body_witness:
  "sourceFormat (initial_panel\<lparr>output' := hello_world, sourceFormat := PDF\<rparr>) = PDF
   \<and> output' (initial_panel\<lparr>output' := hello_world, sourceFormat := PDF\<rparr>) \<noteq> []
   \<and> pdfMake all_libraries
   \<and> handleDownload all_libraries 1730000000000
        (initial_panel\<lparr>output' := hello_world, sourceFormat := PDF\<rparr>) =
           Some (PdfMakeDownload
                  \<lparr>doc_content = [\<lparr>block_text = ''Translation'', style = ''header''\<rparr>,
                                  \<lparr>block_text = hello_world, style = ''body''\<rparr>],
                   styles = [(''header'', \<lparr>fontSize = 18, bold = Some True,
                                           margin = Some [0, 0, 0, 10], lineHeight = None\<rparr>),
                             (''body'', \<lparr>fontSize = 12, bold = None,
                                         margin = None, lineHeight = Some (3 / 2)\<rparr>)]\<rparr>
                  (''translation-'' @ string_of_nat 1730000000000 @ ''.pdf''))"
proof -
  have a: "sourceFormat (initial_panel\<lparr>output' := hello_world, sourceFormat := PDF\<rparr>) = PDF"
    by simp
  have b: "output' (initial_panel\<lparr>output' := hello_world, sourceFormat := PDF\<rparr>) \<noteq> []"
    by (simp add: hello_world_def)
  have c: "pdfMake all_libraries"
    by (simp add: all_libraries_def)
  show ?thesis
    using a b c pdf_download_header_and_one_body [OF a b c, of 1730000000000, THEN conjunct1]
    by simp
qed

text \<open>
  With an empty translation the handler returns without a download, and without pdfMake
  the pdf format falls back to a plain text file.
\<close>

theorem pdf_download_guards:
  "handleDownload all_libraries 1730000000000 (initial_panel\<lparr>output' := [], sourceFormat := PDF\<rparr>) = None
   \<and> handleDownload no_window 1730000000000 (initial_panel\<lparr>output' := hello_world, sourceFormat := PDF\<rparr>) =
        Some (AnchorDownload (TextBlob hello_world ''text/plain;charset=utf-8'')
               (''translation-'' @ string_of_nat 1730000000000 @ ''.txt''))"
  by (simp add: handleDownload_def all_libraries_def no_window_def hello_world_def)

section \<open>File import\<close>

lemma pdf_panel_after_import: "handleFileSelect no_window initial_panel (Some ethics_pdf) = (pdf_panel, [])"
  by (simp add: handleFileSelect_def ethics_pdf_def pdf_panel_def initial_panel_def Let_def)

text \<open>
  Claim C5. A file of unknown type and extension, offered to a panel that holds an imported
  PDF, raises the notice "Unsupported file type ..." and leaves the text input and the
  attachment as they are, but the source format does not stay: it is set from the offered
  file before the file is examined, and goes from pdf to text.
\<close>

theorem unsupported_file_resets_source_format:
  "handleFileSelect all_libraries pdf_panel (Some notes_xyz) =
     (pdf_panel\<lparr>sourceFormat := TEXT\<rparr>,
      [''Unsupported file type. Please upload PDF, DOCX, Text, or Image files.''])
   \<and> sourceFormat pdf_panel = PDF
   \<and> sourceFormat (fst (handleFileSelect all_libraries pdf_panel (Some notes_xyz))) = TEXT
   \<and> attachment (fst (handleFileSelect all_libraries pdf_panel (Some notes_xyz))) = attachment pdf_panel
   \<and> input (fst (handleFileSelect all_libraries pdf_panel (Some notes_xyz))) = input pdf_panel"
  by (simp add: handleFileSelect_def notes_xyz_def pdf_panel_def initial_panel_def Let_def
        startsWith_def match_docx_def match_txt_md_json_def endsWith_i_def toLowerAscii_def)

lemma endsWith_i_iff:
  "endsWith_i s suffix \<longleftrightarrow> (\<exists>stem ext. s = stem @ ext \<and> map toLowerAscii ext = suffix)"
proof
  assume a: "endsWith_i s suffix"
  have "s = take (length s - length suffix) s @ drop (length s - length suffix) s"
    by simp
  with a show "\<exists>stem ext. s = stem @ ext \<and> map toLowerAscii ext = suffix"
    unfolding endsWith_i_def by blast
next
  assume "\<exists>stem ext. s = stem @ ext \<and> map toLowerAscii ext = suffix"
  then obtain stem ext where s: "s = stem @ ext" and e: "map toLowerAscii ext = suffix"
    by blast
  from e have "length suffix = length ext"
    by auto
  with s e show "endsWith_i s suffix"
    by (simp add: endsWith_i_def)
qed

lemma sourceFormat_handleTranslate: "sourceFormat (fst (handleTranslate e st)) = sourceFormat st"
  by (simp add: handleTranslate_def Let_def split: prod.splits sum.splits)

lemma sourceFormat_handleDefineTerm: "sourceFormat (fst (handleDefineTerm e st)) = sourceFormat st"
  by (simp add: handleDefineTerm_def split: prod.splits sum.splits)

lemma sourceFormat_detected:
  "sourceFormat (fst (handleFileSelect win st (Some f))) =
     (if type' f = ''application/pdf'' then PDF
      else if match_docx (name f) then DOCX
      else TEXT)"
  by (simp add: handleFileSelect_def Let_def split: option.splits)

lemma step_keeps_text:
  "\<not> offers_file ev \<Longrightarrow> sourceFormat st = TEXT \<Longrightarrow> sourceFormat (step e win st ev) = TEXT"
proof (cases ev)
  case (FileSelect selected)
  assume "\<not> offers_file ev" and "sourceFormat st = TEXT"
  with FileSelect have "selected = None"
    by (cases selected) simp_all
  with FileSelect \<open>sourceFormat st = TEXT\<close> show ?thesis
    by (simp add: handleFileSelect_def)
qed (simp_all add: sourceFormat_handleTranslate sourceFormat_handleDefineTerm clearAttachment_def)

lemma run_keeps_text:
  "\<forall>ev\<in>set evs. \<not> offers_file ev \<Longrightarrow> sourceFormat st = TEXT \<Longrightarrow>
     sourceFormat (run e win st evs) = TEXT"
  unfolding run_def
  by (induction evs arbitrary: st) (simp_all add: step_keeps_text)

text \<open>
  Claim C9. For every file offered, the source format after \<open>handleFileSelect\<close> is pdf
  when the media type is the PDF type; otherwise docx when the name ends in ".docx", the
  letters compared without case; otherwise text. The media type is looked at first, so it
  wins over the name. A panel to which no file has been offered, whatever else was done on
  it, has the source format text.
\<close>

theorem source_format_detection:
  "sourceFormat (fst (handleFileSelect win st (Some f))) =
     (if type' f = ''application/pdf'' then PDF
      else if (\<exists>stem ext. name f = stem @ ext \<and> map toLowerAscii ext = ''.docx'') then DOCX
      else TEXT)
   \<and> sourceFormat initial_panel = TEXT
   \<and> ((\<forall>ev\<in>set evs. \<not> offers_file ev) \<longrightarrow> sourceFormat (run e win initial_panel evs) = TEXT)"
proof (intro conjI impI)
  show "sourceFormat (fst (handleFileSelect win st (Some f))) =
     (if type' f = ''application/pdf'' then PDF
      else if (\<exists>stem ext. name f = stem @ ext \<and> map toLowerAscii ext = ''.docx'') then DOCX
      else TEXT)"
    unfolding sourceFormat_detected match_docx_def endsWith_i_iff ..
  show init: "sourceFormat initial_panel = TEXT"
    by (simp add: initial_panel_def)
  assume "\<forall>ev\<in>set evs. \<not> offers_file ev"
  then show "sourceFormat (run e win initial_panel evs) = TEXT"
    using init by (rule run_keeps_text)
qed

theorem source_format_detection_witness:
  "sourceFormat (fst (handleFileSelect no_window initial_panel (Some renamed_pdf))) = PDF
   \<and> sourceFormat (fst (handleFileSelect no_window initial_panel (Some thesis_docx))) = DOCX
   \<and> sourceFormat (fst (handleFileSelect no_window pdf_panel (Some notes_md))) = TEXT
   \<and> sourceFormat (run silent_env no_window initial_panel
                      [SetInput ''Dasein'', Translate, FileSelect None, ClearAttachment, Download 0]) = TEXT"
proof -
  note th = source_format_detection [of no_window initial_panel renamed_pdf
                   "[SetInput ''Dasein'', Translate, FileSelect None, ClearAttachment, Download 0]"
                   silent_env]
  have a: "sourceFormat (fst (handleFileSelect no_window initial_panel (Some renamed_pdf))) = PDF"
    using th [THEN conjunct1] by (simp add: renamed_pdf_def)
  have b: "sourceFormat (fst (handleFileSelect no_window initial_panel (Some thesis_docx))) = DOCX"
    using source_format_detection [of no_window initial_panel thesis_docx, THEN conjunct1]
    by (simp add: endsWith_i_iff [symmetric])
       (simp add: thesis_docx_def endsWith_i_def toLowerAscii_def)
  have c: "sourceFormat (fst (handleFileSelect no_window pdf_panel (Some notes_md))) = TEXT"
    using source_format_detection [of no_window pdf_panel notes_md, THEN conjunct1]
    by (simp add: endsWith_i_iff [symmetric])
       (simp add: notes_md_def endsWith_i_def toLowerAscii_def)
  have d: "sourceFormat (run silent_env no_window initial_panel
                      [SetInput ''Dasein'', Translate, FileSelect None, ClearAttachment, Download 0]) = TEXT"
    by (rule th [THEN conjunct2, THEN conjunct2, THEN mp]) simp
  show ?thesis
    by (intro conjI a b c d)
qed

text \<open>
  Claim C10. A PDF or image that is read becomes the attachment and the text input becomes
  empty; a DOCX file whose text mammoth extracts, and a text file that is read, become the
  text input and the attachment is removed. So after each of these imports the panel holds
  no attachment or an empty text input.
\<close>

theorem import_sets_attachment_or_text:
  "((type' f = ''application/pdf'' \<or> startsWith (type' f) ''image/'')
      \<and> readAsDataURL f = Some d \<longrightarrow>
      input (fst (handleFileSelect win st (Some f))) = []
      \<and> attachment (fst (handleFileSelect win st (Some f))) =
          Some \<lparr>file_data = d, file_mimeType = type' f, file_name = name f\<rparr>)
   \<and> (type' f \<noteq> ''application/pdf'' \<and> \<not> startsWith (type' f) ''image/''
      \<and> match_docx (name f)
      \<and> arrayBuffer f = Some buffer \<and> mammoth win = Some extractRawText
      \<and> extractRawText buffer = Some t \<longrightarrow>
      input (fst (handleFileSelect win st (Some f))) = t
      \<and> attachment (fst (handleFileSelect win st (Some f))) = None)
   \<and> (type' f \<noteq> ''application/pdf'' \<and> \<not> startsWith (type' f) ''image/''
      \<and> \<not> match_docx (name f)
      \<and> (startsWith (type' f) ''text/'' \<or> match_txt_md_json (name f))
      \<and> file_text f = Some t \<longrightarrow>
      input (fst (handleFileSelect win st (Some f))) = t
      \<and> attachment (fst (handleFileSelect win st (Some f))) = None)
   \<and> (((type' f = ''application/pdf'' \<or> startsWith (type' f) ''image/'')
          \<and> readAsDataURL f = Some d)
       \<or> (type' f \<noteq> ''application/pdf'' \<and> \<not> startsWith (type' f) ''image/''
          \<and> match_docx (name f)
          \<and> arrayBuffer f = Some buffer \<and> mammoth win = Some extractRawText
          \<and> extractRawText buffer = Some t)
       \<or> (type' f \<noteq> ''application/pdf'' \<and> \<not> startsWith (type' f) ''image/''
          \<and> \<not> match_docx (name f)
          \<and> (startsWith (type' f) ''text/'' \<or> match_txt_md_json (name f))
          \<and> file_text f = Some t) \<longrightarrow>
      attachment (fst (handleFileSelect win st (Some f))) = None
      \<or> input (fst (handleFileSelect win st (Some f))) = [])"
  by (auto simp: handleFileSelect_def Let_def)

theorem import_sets_attachment_or_text_witness:
  "input (fst (handleFileSelect no_window typed_panel (Some sample_image))) = []
   \<and> attachment (fst (handleFileSelect no_window typed_panel (Some sample_image))) =
        Some \<lparr>file_data = ''data:image/png;base64,AAAA'', file_mimeType = ''image/png'',
              file_name = ''cave.png''\<rparr>
   \<and> input (fst (handleFileSelect all_libraries typed_panel (Some thesis_docx))) = ''Being and Time''
   \<and> attachment (fst (handleFileSelect all_libraries typed_panel (Some thesis_docx))) = None
   \<and> input (fst (handleFileSelect no_window typed_panel (Some notes_md))) = ''Notes''
   \<and> attachment (fst (handleFileSelect no_window typed_panel (Some notes_md))) = None"
proof -
  have img: "(type' sample_image = ''application/pdf'' \<or> startsWith (type' sample_image) ''image/'')
      \<and> readAsDataURL sample_image = Some ''data:image/png;base64,AAAA''"
    by (simp add: sample_image_def startsWith_def)
  have a: "input (fst (handleFileSelect no_window typed_panel (Some sample_image))) = []
      \<and> attachment (fst (handleFileSelect no_window typed_panel (Some sample_image))) =
          Some \<lparr>file_data = ''data:image/png;base64,AAAA'', file_mimeType = type' sample_image,
                file_name = name sample_image\<rparr>"
    by (rule import_sets_attachment_or_text [of sample_image "''data:image/png;base64,AAAA''" no_window typed_panel,
                  THEN conjunct1, THEN mp])
       (rule img)
  have doc: "type' thesis_docx \<noteq> ''application/pdf'' \<and> \<not> startsWith (type' thesis_docx) ''image/''
      \<and> match_docx (name thesis_docx)
      \<and> arrayBuffer thesis_docx = Some ''Being and Time''
      \<and> mammoth all_libraries = Some (\<lambda>buffer. Some buffer)
      \<and> (\<lambda>buffer. Some buffer) ''Being and Time'' = Some ''Being and Time''"
    by (simp add: thesis_docx_def all_libraries_def startsWith_def match_docx_def endsWith_i_def
                  toLowerAscii_def)
  have b: "input (fst (handleFileSelect all_libraries typed_panel (Some thesis_docx))) = ''Being and Time''
      \<and> attachment (fst (handleFileSelect all_libraries typed_panel (Some thesis_docx))) = None"
    by (rule import_sets_attachment_or_text [of thesis_docx _ all_libraries typed_panel "''Being and Time''"
                     "\<lambda>buffer. Some buffer" "''Being and Time''",
                  THEN conjunct2, THEN conjunct1, THEN mp])
       (rule doc)
  have plain: "type' notes_md \<noteq> ''application/pdf'' \<and> \<not> startsWith (type' notes_md) ''image/''
      \<and> \<not> match_docx (name notes_md)
      \<and> (startsWith (type' notes_md) ''text/'' \<or> match_txt_md_json (name notes_md))
      \<and> file_text notes_md = Some ''Notes''"
    by (simp add: notes_md_def startsWith_def match_docx_def match_txt_md_json_def endsWith_i_def
                  toLowerAscii_def)
  have c: "input (fst (handleFileSelect no_window typed_panel (Some notes_md))) = ''Notes''
      \<and> attachment (fst (handleFileSelect no_window typed_panel (Some notes_md))) = None"
    by (rule import_sets_attachment_or_text [of notes_md _ no_window typed_panel _ _ "''Notes''",
                  THEN conjunct2, THEN conjunct2, THEN conjunct1, THEN mp])
       (rule plain)
  from a have a': "input (fst (handleFileSelect no_window typed_panel (Some sample_image))) = []
      \<and> attachment (fst (handleFileSelect no_window typed_panel (Some sample_image))) =
          Some \<lparr>file_data = ''data:image/png;base64,AAAA'', file_mimeType = ''image/png'',
                file_name = ''cave.png''\<rparr>"
    by (simp add: sample_image_def)
  from a' b c show ?thesis
    by blast
qed

end
